theory Spec2Isabelle
  imports Complex_Main
begin

section \<open>Bounded integer implementation calculator\<close>

text \<open>
  A shallow embedding of \<^verbatim>\<open>skills/cairo-coding/bounded_int_calc.py\<close>. Python's
  unbounded integers are \<^typ>\<open>int\<close>; Python's floor division \<^verbatim>\<open>//\<close> agrees with
  \<open>div\<close> on \<^typ>\<open>int\<close> for every non-zero divisor and raises for a zero one. A
  function that prints to the error channel returns the lines it printed, in order; a
  function that can raise returns a sum, with the exception on the left.
\<close>

subsection \<open>Exceptions and builtins\<close>

datatype error = SystemExit int | ZeroDivisionError | ValueError

text \<open>
  The exit status of the interpreter: \<^verbatim>\<open>sys.exit(n)\<close> ends the process with status
  \<open>n\<close>, any other exception that nothing catches ends it with status 1 after the
  traceback went to the error channel, and a normal return ends it with status 0.
\<close>

fun exit_status :: "error + 'a \<Rightarrow> int" where
  "exit_status (Inl (SystemExit n)) = n"
| "exit_status (Inl ZeroDivisionError) = 1"
| "exit_status (Inl ValueError) = 1"
| "exit_status (Inr r) = 0"

definition floordiv :: "int \<Rightarrow> int \<Rightarrow> error + int" where
  "floordiv a b = (if b = 0 then Inl ZeroDivisionError else Inr (a div b))"

text \<open>
  \<^verbatim>\<open>min(xs)\<close> and \<^verbatim>\<open>max(xs)\<close> on a list: the first element is the candidate, every
  later element replaces it when it is strictly smaller (larger); the empty list raises.
\<close>

fun min_py :: "int list \<Rightarrow> error + int" where
  "min_py [] = Inl ValueError"
| "min_py (x # xs) = Inr (foldl (\<lambda>m y. if y < m then y else m) x xs)"

fun max_py :: "int list \<Rightarrow> error + int" where
  "max_py [] = Inl ValueError"
| "max_py (x # xs) = Inr (foldl (\<lambda>m y. if m < y then y else m) x xs)"

text \<open>
  The decimal digits of a natural number, most significant first, and the decimal
  text of an integer, with a minus sign before a negative number.
\<close>

definition digit_char :: "nat \<Rightarrow> char" where
  "digit_char d = ''0123456789'' ! d"

function str_nat :: "nat \<Rightarrow> string" where
  "str_nat n = (if n < 10 then [digit_char n] else str_nat (n div 10) @ [digit_char (n mod 10)])"
  by pat_completeness auto
termination
  by (relation "measure id") auto

declare str_nat.simps [simp del]

definition decimal :: "int \<Rightarrow> string" where
  "decimal i = (if i < 0 then CHR ''-'' # str_nat (nat (- i)) else str_nat (nat i))"

text \<open>
  \<^verbatim>\<open>str\<close> on an integer, which is also how an f-string formats an integer field. The
  interpreter (CPython 3.11 and later, and the security releases of 3.7 to 3.10) limits
  the conversion between integers and decimal text: converting an integer of more than
  \<^verbatim>\<open>sys.get_int_max_str_digits()\<close> digits, 4300 unless the interpreter is configured
  otherwise, raises ValueError. The sign does not count. The same limit applies to
  \<^verbatim>\<open>int\<close> on the text of a command-line argument, so an integer that the argument
  parser hands over has at most 4300 digits.
\<close>

definition max_str_digits :: nat where
  "max_str_digits = 4300"

definition str_int :: "int \<Rightarrow> error + string" where
  "str_int i =
     (if max_str_digits < length (str_nat (nat \<bar>i\<bar>)) then Inl ValueError
      else Inr (decimal i))"

text \<open>
  An f-string, as the list of its parts from left to right: a literal part is a text, a
  replacement field is the result of formatting its value. The first field that raises
  ends the evaluation with its exception.
\<close>

fun fstring :: "(error + string) list \<Rightarrow> error + string" where
  "fstring [] = Inr []"
| "fstring (Inl e # parts) = Inl e"
| "fstring (Inr s # parts) = (case fstring parts of Inl e \<Rightarrow> Inl e | Inr t \<Rightarrow> Inr (s @ t))"

text \<open>
  A computation that prints to the error channel and may raise: the lines printed so
  far and the result. Running a second computation after a first one keeps the lines
  of both; an exception in the first one skips the second.
\<close>

type_synonym 'a io = "string list \<times> (error + 'a)"

definition and_then :: "'a io \<Rightarrow> ('a \<Rightarrow> 'b io) \<Rightarrow> 'b io" where
  "and_then m f =
     (case m of
        (printed, Inl e) \<Rightarrow> (printed, Inl e)
      | (printed, Inr x) \<Rightarrow> (case f x of (more, r) \<Rightarrow> (printed @ more, r)))"

text \<open>
  \<^verbatim>\<open>print(text, file=sys.stderr)\<close>: the argument is evaluated first, so when it
  raises nothing is printed.
\<close>

definition print_stderr :: "error + string \<Rightarrow> unit io" where
  "print_stderr arg = (case arg of Inl e \<Rightarrow> ([], Inl e) | Inr line \<Rightarrow> ([line], Inr ()))"

subsection \<open>The validator\<close>

definition FELT252_PRIME :: int where
  "FELT252_PRIME = 0x800000000000011000000000000000000000000000000000000000000000001"

definition warning :: "string \<Rightarrow> int \<Rightarrow> error + string" where
  "warning name val =
     fstring [Inr ''WARNING: '', Inr name, Inr '' = '', str_int val,
              Inr '' exceeds felt252 range!'']"

definition validate_felt252 :: "int \<Rightarrow> string \<Rightarrow> unit io" where
  "validate_felt252 val name =
     (if val < 0 then
        (if abs val \<ge> FELT252_PRIME then print_stderr (warning name val) else ([], Inr ()))
      else if val \<ge> FELT252_PRIME then print_stderr (warning name val)
      else ([], Inr ()))"

definition format_bound :: "int \<Rightarrow> error + string" where
  "format_bound val = (if val < 0 then str_int val else str_int val)"

subsection \<open>The interval arithmetic\<close>

definition calc_add :: "int \<Rightarrow> int \<Rightarrow> int \<Rightarrow> int \<Rightarrow> int \<times> int" where
  "calc_add a_lo a_hi b_lo b_hi =
     (let result_lo = a_lo + b_lo;
          result_hi = a_hi + b_hi
      in (result_lo, result_hi))"

definition calc_sub :: "int \<Rightarrow> int \<Rightarrow> int \<Rightarrow> int \<Rightarrow> int \<times> int" where
  "calc_sub a_lo a_hi b_lo b_hi =
     (let result_lo = a_lo - b_hi;
          result_hi = a_hi - b_lo
      in (result_lo, result_hi))"

definition calc_mul :: "int \<Rightarrow> int \<Rightarrow> int \<Rightarrow> int \<Rightarrow> error + int \<times> int" where
  "calc_mul a_lo a_hi b_lo b_hi =
     (let corners = [a_lo * b_lo, a_lo * b_hi, a_hi * b_lo, a_hi * b_hi]
      in case min_py corners of
           Inl e \<Rightarrow> Inl e
         | Inr lo \<Rightarrow> (case max_py corners of
                        Inl e \<Rightarrow> Inl e
                      | Inr hi \<Rightarrow> Inr (lo, hi)))"

definition calc_div ::
  "int \<Rightarrow> int \<Rightarrow> int \<Rightarrow> int \<Rightarrow> string list \<times> (error + (int \<times> int) \<times> (int \<times> int))" where
  "calc_div a_lo a_hi b_lo b_hi =
     (if b_lo \<le> 0 then
        ([''ERROR: Divisor lower bound must be positive!''], Inl (SystemExit 1))
      else if a_lo < 0 then
        ([''ERROR: Dividend lower bound must be non-negative! Cairo's bounded_int_div_rem does not support negative dividends.''],
         Inl (SystemExit 1))
      else
        case floordiv a_lo b_hi of
          Inl e \<Rightarrow> ([], Inl e)
        | Inr quot_lo \<Rightarrow>
            (case floordiv a_hi b_lo of
               Inl e \<Rightarrow> ([], Inl e)
             | Inr quot_hi \<Rightarrow>
                 (let rem_lo = 0;
                      rem_hi = b_hi - 1
                  in ([], Inr ((quot_lo, quot_hi), (rem_lo, rem_hi))))))"

subsection \<open>The declaration renderers\<close>

text \<open>
  Each renderer computes the result bounds, passes every bound to the validator, in
  the order of the source, and then evaluates the f-string of the declaration, whose
  fields are formatted from left to right.
\<close>

definition generate_add_impl :: "int \<Rightarrow> int \<Rightarrow> int \<Rightarrow> int \<Rightarrow> string \<Rightarrow> string io" where
  "generate_add_impl a_lo a_hi b_lo b_hi name =
     (case calc_add a_lo a_hi b_lo b_hi of (result_lo, result_hi) \<Rightarrow>
        and_then (validate_felt252 result_lo ''Result min'') (\<lambda>_.
        and_then (validate_felt252 result_hi ''Result max'') (\<lambda>_.
        ([], fstring
           [Inr ''impl '', Inr name, Inr '' of AddHelper<BoundedInt<'', format_bound a_lo,
            Inr '', '', format_bound a_hi, Inr ''>, BoundedInt<'', format_bound b_lo,
            Inr '', '', format_bound b_hi, Inr ''>> {'', Inr [CHR 0x0A],
            Inr ''    type Result = BoundedInt<'', format_bound result_lo,
            Inr '', '', format_bound result_hi, Inr ''>;'', Inr [CHR 0x0A],
            Inr ''}'']))))"

definition generate_sub_impl :: "int \<Rightarrow> int \<Rightarrow> int \<Rightarrow> int \<Rightarrow> string \<Rightarrow> string io" where
  "generate_sub_impl a_lo a_hi b_lo b_hi name =
     (case calc_sub a_lo a_hi b_lo b_hi of (result_lo, result_hi) \<Rightarrow>
        and_then (validate_felt252 result_lo ''Result min'') (\<lambda>_.
        and_then (validate_felt252 result_hi ''Result max'') (\<lambda>_.
        ([], fstring
           [Inr ''impl '', Inr name, Inr '' of SubHelper<BoundedInt<'', format_bound a_lo,
            Inr '', '', format_bound a_hi, Inr ''>, BoundedInt<'', format_bound b_lo,
            Inr '', '', format_bound b_hi, Inr ''>> {'', Inr [CHR 0x0A],
            Inr ''    type Result = BoundedInt<'', format_bound result_lo,
            Inr '', '', format_bound result_hi, Inr ''>;'', Inr [CHR 0x0A],
            Inr ''}'']))))"

definition generate_mul_impl :: "int \<Rightarrow> int \<Rightarrow> int \<Rightarrow> int \<Rightarrow> string \<Rightarrow> string io" where
  "generate_mul_impl a_lo a_hi b_lo b_hi name =
     and_then ([], calc_mul a_lo a_hi b_lo b_hi) (\<lambda>(result_lo, result_hi).
        and_then (validate_felt252 result_lo ''Result min'') (\<lambda>_.
        and_then (validate_felt252 result_hi ''Result max'') (\<lambda>_.
        ([], fstring
           [Inr ''impl '', Inr name, Inr '' of MulHelper<BoundedInt<'', format_bound a_lo,
            Inr '', '', format_bound a_hi, Inr ''>, BoundedInt<'', format_bound b_lo,
            Inr '', '', format_bound b_hi, Inr ''>> {'', Inr [CHR 0x0A],
            Inr ''    type Result = BoundedInt<'', format_bound result_lo,
            Inr '', '', format_bound result_hi, Inr ''>;'', Inr [CHR 0x0A],
            Inr ''}'']))))"

definition generate_div_impl :: "int \<Rightarrow> int \<Rightarrow> int \<Rightarrow> int \<Rightarrow> string \<Rightarrow> string io" where
  "generate_div_impl a_lo a_hi b_lo b_hi name =
     and_then (calc_div a_lo a_hi b_lo b_hi) (\<lambda>((quot_lo, quot_hi), (rem_lo, rem_hi)).
        and_then (validate_felt252 quot_lo ''Quotient min'') (\<lambda>_.
        and_then (validate_felt252 quot_hi ''Quotient max'') (\<lambda>_.
        and_then (validate_felt252 rem_lo ''Remainder min'') (\<lambda>_.
        and_then (validate_felt252 rem_hi ''Remainder max'') (\<lambda>_.
        ([], fstring
           [Inr ''impl '', Inr name, Inr '' of DivRemHelper<BoundedInt<'', format_bound a_lo,
            Inr '', '', format_bound a_hi, Inr ''>, BoundedInt<'', format_bound b_lo,
            Inr '', '', format_bound b_hi, Inr ''>> {'', Inr [CHR 0x0A],
            Inr ''    type DivT = BoundedInt<'', format_bound quot_lo,
            Inr '', '', format_bound quot_hi, Inr ''>;'', Inr [CHR 0x0A],
            Inr ''    type RemT = BoundedInt<'', format_bound rem_lo,
            Inr '', '', format_bound rem_hi, Inr ''>;'', Inr [CHR 0x0A],
            Inr ''}'']))))))"

subsection \<open>The dispatch of the entry point\<close>

text \<open>
  The entry point, after the arguments are parsed: it calls the renderer of the chosen
  operation and prints the declaration to the standard output. The process is what an
  observer sees of one run: the lines on the standard output, the lines the program
  printed to the error channel, and the exit status. An exception leaves the standard
  output empty; the traceback that the interpreter writes for an exception other than
  SystemExit is not among the lines of the error channel recorded here.
\<close>

datatype operation = OpAdd | OpSub | OpMul | OpDiv

record process =
  stdout :: "string list"
  stderr :: "string list"
  status :: int

definition finish :: "string io \<Rightarrow> process" where
  "finish r =
     (case r of
        (printed, Inl e) \<Rightarrow> \<lparr>stdout = [], stderr = printed, status = exit_status (Inl e :: error + string)\<rparr>
      | (printed, Inr decl) \<Rightarrow> \<lparr>stdout = [decl], stderr = printed, status = 0\<rparr>)"

fun main :: "operation \<Rightarrow> int \<Rightarrow> int \<Rightarrow> int \<Rightarrow> int \<Rightarrow> string \<Rightarrow> process" where
  "main OpAdd a_lo a_hi b_lo b_hi name = finish (generate_add_impl a_lo a_hi b_lo b_hi name)"
| "main OpSub a_lo a_hi b_lo b_hi name = finish (generate_sub_impl a_lo a_hi b_lo b_hi name)"
| "main OpMul a_lo a_hi b_lo b_hi name = finish (generate_mul_impl a_lo a_hi b_lo b_hi name)"
| "main OpDiv a_lo a_hi b_lo b_hi name = finish (generate_div_impl a_lo a_hi b_lo b_hi name)"

text \<open>
  An integer that the argument parser accepted: its decimal text has at most
  \<open>max_str_digits\<close> digits.
\<close>

definition parsed :: "int \<Rightarrow> bool" where
  "parsed i \<longleftrightarrow> \<bar>i\<bar> < 10 ^ max_str_digits"

section \<open>Properties\<close>

subsection \<open>Auxiliary facts\<close>

text \<open>
  The division, by cases on its two checks and on the upper bound of the divisor; and
  the builtins \<open>min\<close> and \<open>max\<close> on a non-empty list, as the least and the greatest
  element.
\<close>

lemma calc_div_cases:
  "calc_div a_lo a_hi b_lo b_hi =
     (if b_lo \<le> 0 then
        ([''ERROR: Divisor lower bound must be positive!''], Inl (SystemExit 1))
      else if a_lo < 0 then
        ([''ERROR: Dividend lower bound must be non-negative! Cairo's bounded_int_div_rem does not support negative dividends.''],
         Inl (SystemExit 1))
      else if b_hi = 0 then ([], Inl ZeroDivisionError)
      else ([], Inr ((a_lo div b_hi, a_hi div b_lo), (0, b_hi - 1))))"
  by (simp add: calc_div_def floordiv_def)

lemma min_py_Min: "min_py (x # xs) = Inr (Min (set (x # xs)))"
proof -
  have "(\<lambda>m y. if y < m then y else m) = (\<lambda>m y. min y (m::int))"
    by (auto simp add: fun_eq_iff min_def)
  then show ?thesis
    using Min.set_eq_fold [of x xs] by (simp add: foldl_conv_fold)
qed

lemma max_py_Max: "max_py (x # xs) = Inr (Max (set (x # xs)))"
proof -
  have "(\<lambda>m y. if m < y then y else m) = (\<lambda>m y. max y (m::int))"
    by (auto simp add: fun_eq_iff max_def)
  then show ?thesis
    using Max.set_eq_fold [of x xs] by (simp add: foldl_conv_fold)
qed

lemma calc_mul_min_max:
  "calc_mul a_lo a_hi b_lo b_hi =
     Inr (Min (set [a_lo * b_lo, a_lo * b_hi, a_hi * b_lo, a_hi * b_hi]),
          Max (set [a_lo * b_lo, a_lo * b_hi, a_hi * b_lo, a_hi * b_hi]))"
  unfolding calc_mul_def Let_def min_py_Min max_py_Max by simp

text \<open>
  The limit on the digits of a conversion: the decimal text of a natural number has at
  most \<open>k\<close> digits exactly when the number is below \<open>10 ^ k\<close>, so formatting an
  integer raises exactly when the integer was not one the argument parser could have
  accepted; the modulus has far fewer digits than the limit.
\<close>

lemma str_nat_nonempty: "str_nat n \<noteq> []"
  by (subst str_nat.simps) simp

lemma str_nat_length: "0 < k \<Longrightarrow> length (str_nat n) \<le> k \<longleftrightarrow> n < 10 ^ k"
proof (induction n arbitrary: k rule: str_nat.induct)
  case (1 n)
  show ?case
  proof (cases "n < 10")
    case True
    have "(10::nat) ^ 1 \<le> 10 ^ k"
      using 1(2) by (intro power_increasing) simp_all
    then have "n < 10 ^ k"
      using True by simp
    moreover have "length (str_nat n) = 1"
      using True by (subst str_nat.simps) simp
    ultimately show ?thesis
      using 1(2) by simp
  next
    case False
    have len: "length (str_nat n) = Suc (length (str_nat (n div 10)))"
      using False by (subst str_nat.simps) simp
    obtain j where k: "k = Suc j"
      using 1(2) by (cases k) simp_all
    show ?thesis
    proof (cases "j = 0")
      case True
      have "0 < length (str_nat (n div 10))"
        using str_nat_nonempty [of "n div 10"] by simp
      then show ?thesis
        using False True k len by simp
    next
      case j: False
      have "length (str_nat (n div 10)) \<le> j \<longleftrightarrow> n div 10 < 10 ^ j"
        using 1(1) [of j] False j by simp
      also have "\<dots> \<longleftrightarrow> n < 10 ^ j * 10"
        by (simp add: div_less_iff_less_mult)
      finally show ?thesis
        using k len by (simp add: mult.commute)
    qed
  qed
qed

lemma str_int_cases: "str_int i = (if parsed i then Inr (decimal i) else Inl ValueError)"
proof -
  have pos: "0 < max_str_digits"
    by (simp add: max_str_digits_def)
  have "length (str_nat (nat \<bar>i\<bar>)) \<le> max_str_digits \<longleftrightarrow> nat \<bar>i\<bar> < 10 ^ max_str_digits"
    using pos by (rule str_nat_length)
  also have "\<dots> \<longleftrightarrow> \<bar>i\<bar> < 10 ^ max_str_digits"
    by (simp add: nat_less_iff)
  finally show ?thesis
    by (auto simp add: str_int_def parsed_def)
qed

lemma small_parsed: "\<bar>i\<bar> < 10 ^ 77 \<Longrightarrow> parsed i"
proof -
  assume small: "\<bar>i\<bar> < 10 ^ 77"
  have "(10::int) ^ 77 \<le> 10 ^ max_str_digits"
    unfolding max_str_digits_def by (rule power_increasing) simp_all
  with small show ?thesis
    unfolding parsed_def by (rule less_le_trans)
qed

lemma unparsed_exceeds_prime: "\<not> parsed v \<Longrightarrow> FELT252_PRIME \<le> \<bar>v\<bar>"
proof (rule ccontr)
  assume big: "\<not> parsed v" and "\<not> FELT252_PRIME \<le> \<bar>v\<bar>"
  then have "\<bar>v\<bar> < 10 ^ 77"
    by (simp add: FELT252_PRIME_def)
  then show False
    using big small_parsed by blast
qed

lemma validate_felt252_cases:
  "validate_felt252 v name =
     (if \<bar>v\<bar> < FELT252_PRIME then ([], Inr ())
      else if parsed v then
        ([''WARNING: '' @ name @ '' = '' @ decimal v @ '' exceeds felt252 range!''], Inr ())
      else ([], Inl ValueError))"
  by (auto simp add: validate_felt252_def warning_def print_stderr_def str_int_cases)

lemma format_bound_cases:
  "format_bound v = (if parsed v then Inr (decimal v) else Inl ValueError)"
  by (simp add: format_bound_def str_int_cases)


lemma div_abs_le: "0 < b \<Longrightarrow> \<bar>a div b\<bar> \<le> \<bar>a\<bar>" for a b :: int
proof (cases "0 \<le> a")
  case True
  assume b: "0 < b"
  have "0 \<le> a div b"
    using True b by (simp add: pos_imp_zdiv_nonneg_iff)
  moreover have "a div b \<le> a div 1"
    using True b by (intro zdiv_mono2) simp_all
  ultimately show ?thesis
    using True by simp
next
  case False
  assume b: "0 < b"
  have "a div b < 0"
    using False b by (simp add: pos_imp_zdiv_neg_iff)
  moreover have "a div 1 \<le> a div b"
    using False b by (intro zdiv_mono2_neg) simp_all
  ultimately show ?thesis
    using False by simp
qed

lemma parsed_le: "\<bar>i\<bar> \<le> \<bar>j\<bar> \<Longrightarrow> parsed j \<Longrightarrow> parsed i"
  by (simp add: parsed_def)

lemma limit_parsed:
  "parsed 0" "parsed 1" "parsed (10 ^ max_str_digits - 1)" "\<not> parsed (10 ^ max_str_digits)"
proof -
  show "parsed 0" "parsed 1"
    by (simp_all add: small_parsed)
  have "(1::int) \<le> 10 ^ max_str_digits"
    by (rule one_le_power) simp
  then show "parsed (10 ^ max_str_digits - 1)"
    by (simp add: parsed_def)
  show "\<not> parsed (10 ^ max_str_digits)"
    by (simp add: parsed_def)
qed

text \<open>
  Within the limit, the validator returns, with a warning exactly for a value outside
  \<open>[-(FELT252_PRIME - 1), FELT252_PRIME - 1]\<close>, and a run of an addition, a
  subtraction or a multiplication whose bounds all stay within the limit ends with
  status 0 and one declaration, whatever was warned.
\<close>

lemma validator_advisory_within_limit:
  assumes "parsed v"
  shows "snd (validate_felt252 v name) = Inr ()
       \<and> (fst (validate_felt252 v name) \<noteq> []
            \<longleftrightarrow> v < - (FELT252_PRIME - 1) \<or> FELT252_PRIME - 1 < v)
       \<and> (fst (validate_felt252 v name) \<noteq> []
            \<longleftrightarrow> (v < 0 \<and> FELT252_PRIME \<le> \<bar>v\<bar>) \<or> (0 \<le> v \<and> FELT252_PRIME \<le> v))"
  using assms by (auto simp add: validate_felt252_cases)

lemma format_bound_parsed: "parsed v \<Longrightarrow> format_bound v = Inr (decimal v)"
  by (simp add: format_bound_cases)

lemma validate_felt252_parsed:
  "parsed v \<Longrightarrow> \<exists>printed. validate_felt252 v name = (printed, Inr ())"
  by (simp add: validate_felt252_cases)

lemma declaration_within_limit:
  assumes "parsed a_lo" and "parsed a_hi" and "parsed b_lo" and "parsed b_hi"
  shows "parsed (a_lo + b_lo) \<and> parsed (a_hi + b_hi) \<longrightarrow>
           status (main OpAdd a_lo a_hi b_lo b_hi name) = 0
           \<and> length (stdout (main OpAdd a_lo a_hi b_lo b_hi name)) = 1"
    and "parsed (a_lo - b_hi) \<and> parsed (a_hi - b_lo) \<longrightarrow>
           status (main OpSub a_lo a_hi b_lo b_hi name) = 0
           \<and> length (stdout (main OpSub a_lo a_hi b_lo b_hi name)) = 1"
    and "parsed (Min {a_lo * b_lo, a_lo * b_hi, a_hi * b_lo, a_hi * b_hi})
         \<and> parsed (Max {a_lo * b_lo, a_lo * b_hi, a_hi * b_lo, a_hi * b_hi}) \<longrightarrow>
           status (main OpMul a_lo a_hi b_lo b_hi name) = 0
           \<and> length (stdout (main OpMul a_lo a_hi b_lo b_hi name)) = 1"
proof -
  note inputs = assms [THEN format_bound_parsed]
  show "parsed (a_lo + b_lo) \<and> parsed (a_hi + b_hi) \<longrightarrow>
           status (main OpAdd a_lo a_hi b_lo b_hi name) = 0
           \<and> length (stdout (main OpAdd a_lo a_hi b_lo b_hi name)) = 1"
  proof
    assume res: "parsed (a_lo + b_lo) \<and> parsed (a_hi + b_hi)"
    obtain p1 p2 where
      "validate_felt252 (a_lo + b_lo) ''Result min'' = (p1, Inr ())"
      "validate_felt252 (a_hi + b_hi) ''Result max'' = (p2, Inr ())"
      using res validate_felt252_parsed by blast
    then show "status (main OpAdd a_lo a_hi b_lo b_hi name) = 0
           \<and> length (stdout (main OpAdd a_lo a_hi b_lo b_hi name)) = 1"
      using res
      by (simp add: generate_add_impl_def calc_add_def and_then_def finish_def inputs
            format_bound_parsed)
  qed
  show "parsed (a_lo - b_hi) \<and> parsed (a_hi - b_lo) \<longrightarrow>
           status (main OpSub a_lo a_hi b_lo b_hi name) = 0
           \<and> length (stdout (main OpSub a_lo a_hi b_lo b_hi name)) = 1"
  proof
    assume res: "parsed (a_lo - b_hi) \<and> parsed (a_hi - b_lo)"
    obtain p1 p2 where
      "validate_felt252 (a_lo - b_hi) ''Result min'' = (p1, Inr ())"
      "validate_felt252 (a_hi - b_lo) ''Result max'' = (p2, Inr ())"
      using res validate_felt252_parsed by blast
    then show "status (main OpSub a_lo a_hi b_lo b_hi name) = 0
           \<and> length (stdout (main OpSub a_lo a_hi b_lo b_hi name)) = 1"
      using res
      by (simp add: generate_sub_impl_def calc_sub_def and_then_def finish_def inputs
            format_bound_parsed)
  qed
  show "parsed (Min {a_lo * b_lo, a_lo * b_hi, a_hi * b_lo, a_hi * b_hi})
         \<and> parsed (Max {a_lo * b_lo, a_lo * b_hi, a_hi * b_lo, a_hi * b_hi}) \<longrightarrow>
           status (main OpMul a_lo a_hi b_lo b_hi name) = 0
           \<and> length (stdout (main OpMul a_lo a_hi b_lo b_hi name)) = 1"
  proof
    let ?lo = "Min {a_lo * b_lo, a_lo * b_hi, a_hi * b_lo, a_hi * b_hi}"
    let ?hi = "Max {a_lo * b_lo, a_lo * b_hi, a_hi * b_lo, a_hi * b_hi}"
    assume res: "parsed ?lo \<and> parsed ?hi"
    have mul: "calc_mul a_lo a_hi b_lo b_hi = Inr (?lo, ?hi)"
      by (simp add: calc_mul_min_max)
    obtain p1 p2 where
      "validate_felt252 ?lo ''Result min'' = (p1, Inr ())"
      "validate_felt252 ?hi ''Result max'' = (p2, Inr ())"
      using res validate_felt252_parsed by blast
    then show "status (main OpMul a_lo a_hi b_lo b_hi name) = 0
           \<and> length (stdout (main OpMul a_lo a_hi b_lo b_hi name)) = 1"
      using res
      by (simp add: generate_mul_impl_def mul and_then_def finish_def inputs
            format_bound_parsed)
  qed
qed

text \<open>
  On intervals within the limit, a run of the division ends with a non-zero status and
  no declaration exactly when \<open>b_lo \<le> 0\<close> or \<open>a_lo < 0\<close>, and then with status 1
  and the error message of the check as the only line on the error channel.
\<close>

lemma division_fails_iff_on_intervals:
  assumes "parsed a_lo" and "parsed a_hi" and "parsed b_lo" and "parsed b_hi"
    and "b_lo \<le> b_hi"
  shows "(status (main OpDiv a_lo a_hi b_lo b_hi name) \<noteq> 0 \<longleftrightarrow> b_lo \<le> 0 \<or> a_lo < 0)
       \<and> (stdout (main OpDiv a_lo a_hi b_lo b_hi name) = [] \<longleftrightarrow> b_lo \<le> 0 \<or> a_lo < 0)
       \<and> (b_lo \<le> 0 \<or> a_lo < 0 \<longrightarrow>
            status (main OpDiv a_lo a_hi b_lo b_hi name) = 1
            \<and> (\<exists>msg. stderr (main OpDiv a_lo a_hi b_lo b_hi name) = [''ERROR: '' @ msg]))"
proof (cases "b_lo \<le> 0 \<or> a_lo < 0")
  case True
  then show ?thesis
    by (auto simp add: generate_div_impl_def calc_div_cases and_then_def finish_def)
next
  case False
  then have pos: "0 < b_lo" "0 \<le> a_lo" "0 < b_hi"
    using assms(5) by simp_all
  note inputs = assms(1-4) [THEN format_bound_parsed]
  have div: "calc_div a_lo a_hi b_lo b_hi =
      ([], Inr ((a_lo div b_hi, a_hi div b_lo), (0, b_hi - 1)))"
    using pos by (simp add: calc_div_cases)
  have q_lo: "parsed (a_lo div b_hi)"
    using div_abs_le [OF pos(3), of a_lo] assms(1) by (rule parsed_le)
  have q_hi: "parsed (a_hi div b_lo)"
    using div_abs_le [OF pos(1), of a_hi] assms(2) by (rule parsed_le)
  have r_lo: "parsed 0"
    by (rule limit_parsed)
  have r_hi: "parsed (b_hi - 1)"
    using pos(3) assms(4) by (intro parsed_le [of "b_hi - 1" b_hi]) simp_all
  note results = q_lo q_hi r_lo r_hi
  obtain p1 p2 p3 p4 where
    "validate_felt252 (a_lo div b_hi) ''Quotient min'' = (p1, Inr ())"
    "validate_felt252 (a_hi div b_lo) ''Quotient max'' = (p2, Inr ())"
    "validate_felt252 0 ''Remainder min'' = (p3, Inr ())"
    "validate_felt252 (b_hi - 1) ''Remainder max'' = (p4, Inr ())"
    using validate_felt252_parsed [OF q_lo, of "''Quotient min''"]
      validate_felt252_parsed [OF q_hi, of "''Quotient max''"]
      validate_felt252_parsed [OF r_lo, of "''Remainder min''"]
      validate_felt252_parsed [OF r_hi, of "''Remainder max''"]
    by auto
  then have "status (main OpDiv a_lo a_hi b_lo b_hi name) = 0
      \<and> length (stdout (main OpDiv a_lo a_hi b_lo b_hi name)) = 1"
    by (simp add: generate_div_impl_def div and_then_def finish_def inputs
          results [THEN format_bound_parsed])
  with False show ?thesis by auto
qed

text \<open>
  Two runs in full: the division of \<open>[128, 255]\<close> by \<open>[3, 8]\<close>, and an addition whose
  upper result bound \<open>2 ^ 252\<close> is above the modulus, which warns and still prints
  the declaration.
\<close>

lemma decimal_examples:
  "decimal 0 = ''0''" "decimal 3 = ''3''" "decimal 7 = ''7''" "decimal 8 = ''8''"
  "decimal 16 = ''16''" "decimal 85 = ''85''" "decimal 128 = ''128''" "decimal 255 = ''255''"
  "decimal (- 12288) = ''-12288''"
  by (simp_all add: decimal_def str_nat.simps digit_char_def)

lemma division_example:
  "main OpDiv 128 255 3 8 ''DivRemImpl'' =
     \<lparr>stdout = [''impl DivRemImpl of DivRemHelper<BoundedInt<128, 255>, BoundedInt<3, 8>> {''
                 @ [CHR 0x0A] @ ''    type DivT = BoundedInt<16, 85>;''
                 @ [CHR 0x0A] @ ''    type RemT = BoundedInt<0, 7>;''
                 @ [CHR 0x0A] @ ''}''],
      stderr = [], status = 0\<rparr>"
proof -
  have p: "parsed 0" "parsed 3" "parsed 7" "parsed 8" "parsed 16" "parsed 85" "parsed 128"
      "parsed 255"
    by (simp_all add: small_parsed)
  have v: "validate_felt252 16 n = ([], Inr ())" "validate_felt252 85 n = ([], Inr ())"
      "validate_felt252 0 n = ([], Inr ())" "validate_felt252 7 n = ([], Inr ())" for n
    by (simp_all add: validate_felt252_cases FELT252_PRIME_def)
  show ?thesis
    by (simp add: generate_div_impl_def calc_div_cases and_then_def finish_def v
          p [THEN format_bound_parsed] decimal_examples)
qed

lemma warning_example:
  "main OpAdd 0 (2 ^ 252) 0 0 ''AddImpl'' =
     \<lparr>stdout = [''impl AddImpl of AddHelper<BoundedInt<0, '' @ decimal (2 ^ 252)
                 @ ''>, BoundedInt<0, 0>> {'' @ [CHR 0x0A]
                 @ ''    type Result = BoundedInt<0, '' @ decimal (2 ^ 252) @ ''>;''
                 @ [CHR 0x0A] @ ''}''],
      stderr = [''WARNING: Result max = '' @ decimal (2 ^ 252) @ '' exceeds felt252 range!''],
      status = 0\<rparr>"
proof -
  have p: "parsed 0" "parsed (2 ^ 252)"
    by (simp_all add: small_parsed)
  have v: "validate_felt252 0 n = ([], Inr ())"
      "validate_felt252 (2 ^ 252) n =
         ([''WARNING: '' @ n @ '' = '' @ decimal (2 ^ 252) @ '' exceeds felt252 range!''], Inr ())"
    for n
    using p(2) by (simp_all add: validate_felt252_cases FELT252_PRIME_def)
  have run: "generate_add_impl 0 (2 ^ 252) 0 0 ''AddImpl'' =
      and_then (validate_felt252 0 ''Result min'') (\<lambda>_.
        and_then (validate_felt252 (2 ^ 252) ''Result max'') (\<lambda>_.
        ([], fstring
           [Inr ''impl '', Inr ''AddImpl'', Inr '' of AddHelper<BoundedInt<'', format_bound 0,
            Inr '', '', format_bound (2 ^ 252), Inr ''>, BoundedInt<'', format_bound 0,
            Inr '', '', format_bound 0, Inr ''>> {'', Inr [CHR 0x0A],
            Inr ''    type Result = BoundedInt<'', format_bound 0,
            Inr '', '', format_bound (2 ^ 252), Inr ''>;'', Inr [CHR 0x0A],
            Inr ''}''])))"
    by (simp add: generate_add_impl_def calc_add_def)
  show ?thesis
    unfolding main.simps run v p [THEN format_bound_parsed]
    by (simp add: and_then_def finish_def decimal_examples)
qed

text \<open>
  The addition of \<open>[0, 10 ^ 4300 - 1]\<close> and \<open>[0, 1]\<close>: the upper result bound
  \<open>10 ^ 4300\<close> has 4301 digits, and formatting it for the warning raises.
\<close>

lemma generate_add_impl_beyond_limit:
  "generate_add_impl 0 (10 ^ max_str_digits - 1) 0 1 name = ([], Inl ValueError)"
proof -
  have first: "validate_felt252 0 ''Result min'' = ([], Inr ())"
    by (simp add: validate_felt252_cases FELT252_PRIME_def)
  have second: "validate_felt252 (10 ^ max_str_digits) ''Result max'' = ([], Inl ValueError)"
    using limit_parsed(4) unparsed_exceeds_prime [of "10 ^ max_str_digits"]
    by (simp add: validate_felt252_cases)
  show ?thesis
    by (simp add: generate_add_impl_def calc_add_def and_then_def first second)
qed

subsection \<open>Addition and subtraction\<close>

text \<open>
  Claim C7. For every pair of intervals \<open>(a_lo, a_hi)\<close> and \<open>(b_lo, b_hi)\<close>, the
  addition returns the interval \<open>(a_lo + b_lo, a_hi + b_hi)\<close>.
\<close>

theorem calc_add_bounds:
  "calc_add a_lo a_hi b_lo b_hi = (a_lo + b_lo, a_hi + b_hi)"
  by (simp add: calc_add_def)

text \<open>
  Claim C8. For every pair of intervals \<open>(a_lo, a_hi)\<close> and \<open>(b_lo, b_hi)\<close>, the
  subtraction returns the interval \<open>(a_lo - b_hi, a_hi - b_lo)\<close>.
\<close>

theorem calc_sub_bounds:
  "calc_sub a_lo a_hi b_lo b_hi = (a_lo - b_hi, a_hi - b_lo)"
  by (simp add: calc_sub_def)

text \<open>
  Claim C9. The addition of \<open>A\<close> and \<open>B\<close> equals the subtraction of the negated
  interval \<open>(- b_hi, - b_lo)\<close> of \<open>B\<close> from \<open>A\<close>.
\<close>

theorem calc_add_eq_sub_neg:
  "calc_add a_lo a_hi b_lo b_hi = calc_sub a_lo a_hi (- b_hi) (- b_lo)"
  by (simp add: calc_add_def calc_sub_def)

subsection \<open>Multiplication\<close>

text \<open>
  Claim C2. For every pair of intervals the multiplication returns, and never raises,
  the interval whose lower bound is the least and whose upper bound is the greatest
  of the four corner products.
\<close>

theorem calc_mul_corners:
  "calc_mul a_lo a_hi b_lo b_hi =
     Inr (Min {a_lo * b_lo, a_lo * b_hi, a_hi * b_lo, a_hi * b_hi},
          Max {a_lo * b_lo, a_lo * b_hi, a_hi * b_lo, a_hi * b_hi})"
  by (simp add: calc_mul_min_max)

text \<open>
  Claim C3, as the program computes it. On \<open>[0, 12288]\<close> and \<open>[0, 12288]\<close> the
  multiplication returns \<open>[0, 150994944]\<close>: the greatest corner is
  \<open>12288 * 12288 = 150994944\<close>.
\<close>

theorem calc_mul_12288:
  "calc_mul 0 12288 0 12288 = Inr (0, 150994944)"
  by (simp add: calc_mul_min_max)

text \<open>
  The upper bound \<open>151011072\<close> that claim C3 states is not what the multiplication
  returns on these intervals.
\<close>

theorem calc_mul_12288_not_151011072:
  "calc_mul 0 12288 0 12288 \<noteq> Inr (0, 151011072)"
  by (simp add: calc_mul_min_max)

subsection \<open>Division\<close>

text \<open>
  Claim C1. For every pair of intervals \<open>(a_lo, a_hi)\<close> and \<open>(b_lo, b_hi)\<close> with
  \<open>b_lo > 0\<close> and \<open>a_lo \<ge> 0\<close>, the divisor being an interval (\<open>b_lo \<le> b_hi\<close>), the
  division prints nothing and returns the quotient interval
  \<open>(floor (a_lo / b_hi), floor (a_hi / b_lo))\<close> and the remainder interval
  \<open>(0, b_hi - 1)\<close>.
\<close>

theorem calc_div_returns:
  assumes "b_lo \<le> b_hi" and "0 < b_lo" and "0 \<le> a_lo"
  shows "calc_div a_lo a_hi b_lo b_hi =
           ([], Inr ((a_lo div b_hi, a_hi div b_lo), (0, b_hi - 1)))
         \<and> a_lo div b_hi = \<lfloor>real_of_int a_lo / real_of_int b_hi\<rfloor>
         \<and> a_hi div b_lo = \<lfloor>real_of_int a_hi / real_of_int b_lo\<rfloor>"
  using assms by (simp add: calc_div_cases floor_divide_of_int_eq)

theorem calc_div_returns_witness:
  "calc_div 128 255 3 8 = ([], Inr ((16, 85), (0, 7)))"
  using calc_div_returns [of 3 8 128 255] by simp

text \<open>
  Claim C10. Under \<open>b_lo \<le> b_hi\<close>, \<open>b_lo > 0\<close> and \<open>a_lo \<ge> 0\<close> neither floor
  division of the division operation divides by zero, so the operation does not raise
  ZeroDivisionError. The program checks \<open>b_lo > 0\<close> only: once both checks have
  passed, it raises ZeroDivisionError exactly when \<open>b_hi = 0\<close>.
\<close>

theorem floor_divisions_defined:
  assumes "0 < b_lo" and "0 \<le> a_lo"
  shows "(b_lo \<le> b_hi \<longrightarrow>
            floordiv a_lo b_hi \<noteq> Inl ZeroDivisionError
          \<and> floordiv a_hi b_lo \<noteq> Inl ZeroDivisionError
          \<and> snd (calc_div a_lo a_hi b_lo b_hi) \<noteq> Inl ZeroDivisionError)
       \<and> (snd (calc_div a_lo a_hi b_lo b_hi) = Inl ZeroDivisionError \<longleftrightarrow> b_hi = 0)"
  using assms by (auto simp add: calc_div_cases floordiv_def)

theorem floor_divisions_defined_witness:
  "floordiv 128 8 \<noteq> Inl ZeroDivisionError
   \<and> floordiv 255 3 \<noteq> Inl ZeroDivisionError
   \<and> snd (calc_div 128 255 3 8) \<noteq> Inl ZeroDivisionError"
  using floor_divisions_defined [of 3 128 8 255] by simp

subsection \<open>Ordered results\<close>

text \<open>
  Claim C6. For valid input intervals (\<open>a_lo \<le> a_hi\<close> and \<open>b_lo \<le> b_hi\<close>, and for
  the division also \<open>b_lo > 0\<close> and \<open>a_lo \<ge> 0\<close>), every interval that the addition,
  the subtraction, the multiplication and the division (quotient and remainder) return
  has its lower bound at most its upper bound.
\<close>

theorem results_ordered:
  assumes "a_lo \<le> a_hi" and "b_lo \<le> b_hi"
  shows "fst (calc_add a_lo a_hi b_lo b_hi) \<le> snd (calc_add a_lo a_hi b_lo b_hi)
       \<and> fst (calc_sub a_lo a_hi b_lo b_hi) \<le> snd (calc_sub a_lo a_hi b_lo b_hi)
       \<and> (\<exists>lo hi. calc_mul a_lo a_hi b_lo b_hi = Inr (lo, hi) \<and> lo \<le> hi)
       \<and> (0 < b_lo \<longrightarrow> 0 \<le> a_lo \<longrightarrow>
            (\<exists>quot_lo quot_hi rem_lo rem_hi.
               snd (calc_div a_lo a_hi b_lo b_hi) = Inr ((quot_lo, quot_hi), (rem_lo, rem_hi))
               \<and> quot_lo \<le> quot_hi \<and> rem_lo \<le> rem_hi))"
proof -
  have add: "fst (calc_add a_lo a_hi b_lo b_hi) \<le> snd (calc_add a_lo a_hi b_lo b_hi)"
    using assms by (simp add: calc_add_def)
  have sub: "fst (calc_sub a_lo a_hi b_lo b_hi) \<le> snd (calc_sub a_lo a_hi b_lo b_hi)"
    using assms by (simp add: calc_sub_def)
  have mul: "\<exists>lo hi. calc_mul a_lo a_hi b_lo b_hi = Inr (lo, hi) \<and> lo \<le> hi"
    unfolding calc_mul_min_max by (simp add: Min_le_iff)
  have div: "\<exists>quot_lo quot_hi rem_lo rem_hi.
               snd (calc_div a_lo a_hi b_lo b_hi) = Inr ((quot_lo, quot_hi), (rem_lo, rem_hi))
               \<and> quot_lo \<le> quot_hi \<and> rem_lo \<le> rem_hi"
    if pos: "0 < b_lo" and nonneg: "0 \<le> a_lo"
  proof -
    have "a_lo div b_hi \<le> a_lo div b_lo"
      using nonneg pos assms(2) by (rule zdiv_mono2)
    also have "a_lo div b_lo \<le> a_hi div b_lo"
      using assms(1) pos by (rule zdiv_mono1)
    finally have "a_lo div b_hi \<le> a_hi div b_lo" .
    moreover have "0 \<le> b_hi - 1"
      using pos assms(2) by simp
    moreover have "b_hi \<noteq> 0"
      using pos assms(2) by simp
    ultimately show ?thesis
      using pos nonneg by (simp add: calc_div_cases)
  qed
  from add sub mul div show ?thesis by blast
qed

theorem results_ordered_witness:
  "fst (calc_add 128 255 3 8) \<le> snd (calc_add 128 255 3 8)
   \<and> fst (calc_sub 128 255 3 8) \<le> snd (calc_sub 128 255 3 8)
   \<and> (\<exists>lo hi. calc_mul 128 255 3 8 = Inr (lo, hi) \<and> lo \<le> hi)
   \<and> (\<exists>quot_lo quot_hi rem_lo rem_hi.
          snd (calc_div 128 255 3 8) = Inr ((quot_lo, quot_hi), (rem_lo, rem_hi))
          \<and> quot_lo \<le> quot_hi \<and> rem_lo \<le> rem_hi)"
  using results_ordered [of 128 255 3 8] by simp

subsection \<open>The validator beyond the digit limit\<close>

text \<open>
  Claim C5 says that the validator warns for every value outside
  \<open>[-(FELT252_PRIME - 1), FELT252_PRIME - 1]\<close>, never raises, and that a warning never
  suppresses the declaration. The program does otherwise on the addition of
  \<open>[0, 10 ^ 4300 - 1]\<close> and \<open>[0, 1]\<close>, whose four bounds the argument parser accepts:
  the upper result bound \<open>10 ^ 4300\<close> is above the modulus, the validator raises
  ValueError while it formats the warning, nothing is printed to the error channel and
  the renderer returns no declaration.
\<close>

theorem validator_raises_beyond_digit_limit:
  "parsed 0 \<and> parsed (10 ^ max_str_digits - 1) \<and> parsed 1
   \<and> FELT252_PRIME - 1 < 10 ^ max_str_digits
   \<and> validate_felt252 (10 ^ max_str_digits) ''Result max'' = ([], Inl ValueError)
   \<and> generate_add_impl 0 (10 ^ max_str_digits - 1) 0 1 ''AddImpl'' = ([], Inl ValueError)"
proof -
  have "FELT252_PRIME \<le> \<bar>10 ^ max_str_digits\<bar>"
    using limit_parsed(4) by (rule unparsed_exceeds_prime)
  then have above: "FELT252_PRIME - 1 < 10 ^ max_str_digits"
    by simp
  have "validate_felt252 (10 ^ max_str_digits) ''Result max'' = ([], Inl ValueError)"
    using limit_parsed(4) above by (simp add: validate_felt252_cases)
  with above limit_parsed(1-3) generate_add_impl_beyond_limit [of "''AddImpl''"]
  show ?thesis by blast
qed

subsection \<open>A failing addition\<close>

text \<open>
  Claim C4 says that only the division can fail fatally. The run of the addition of
  \<open>[0, 10 ^ 4300 - 1]\<close> and \<open>[0, 1]\<close>, four bounds that the argument parser accepts,
  ends with exit status 1 and prints no declaration.
\<close>

theorem addition_fails_beyond_digit_limit:
  "parsed 0 \<and> parsed (10 ^ max_str_digits - 1) \<and> parsed 1
   \<and> main OpAdd 0 (10 ^ max_str_digits - 1) 0 1 ''AddImpl'' =
       \<lparr>stdout = [], stderr = [], status = 1\<rparr>"
  by (simp add: limit_parsed generate_add_impl_beyond_limit finish_def)

end
